theory Spec2Isabelle
  imports Complex_Main
begin

section \<open>Data model of ping.c\<close>

text \<open>
  The C type \<open>f64\<close> is \<open>long double\<close>. It is modelled by \<open>real\<close>: addition,
  subtraction, negation, doubling and halving are exact, and rounding, infinities and
  NaN are not represented. Comparisons, sign flips and the control flow are those of
  the source. A sum of three terms does not depend on the order of the additions in the
  model, which a rounded sum may; statements about a far corner therefore name the value
  the step itself computes.
\<close>

record vec2 =
  x :: real
  y :: real

definition vec2_add :: "vec2 \<Rightarrow> vec2 \<Rightarrow> vec2" where
  "vec2_add a b = \<lparr> x = x a + x b, y = y a + y b \<rparr>"

definition vec2_sub :: "vec2 \<Rightarrow> vec2 \<Rightarrow> vec2" where
  "vec2_sub a b = \<lparr> x = x a - x b, y = y a - y b \<rparr>"

text \<open>
  Of \<open>tty_ctx_t\<close> only the dimensions take part in the physics and in the command
  interpreter; the file descriptor and the saved terminal attributes are left out.
  The global \<open>tty_context\<close> is passed as an explicit argument. \<open>set_dimensions\<close>
  stores two \<open>unsigned short\<close> values in the \<open>int\<close> fields, so \<open>cols - 1\<close> and
  \<open>rows - 1\<close> cannot overflow.
\<close>

record tty_ctx_t =
  rows :: int
  cols :: int

definition DISPLAY_WIDTH :: "tty_ctx_t \<Rightarrow> int" where
  "DISPLAY_WIDTH tty = cols tty - 1"

definition DISPLAY_HEIGHT :: "tty_ctx_t \<Rightarrow> int" where
  "DISPLAY_HEIGHT tty = rows tty - 1"

record entity_t =
  pos :: vec2
  delta :: vec2
  size :: vec2

text \<open>Integer division of C: the quotient is truncated toward zero.\<close>

definition c_div :: "int \<Rightarrow> int \<Rightarrow> int" where
  "c_div a b = sgn a * sgn b * (\<bar>a\<bar> div \<bar>b\<bar>)"

definition MAX_ENTITY_WIDTH :: "tty_ctx_t \<Rightarrow> int" where
  "MAX_ENTITY_WIDTH tty = c_div (DISPLAY_WIDTH tty) 2"

definition MAX_ENTITY_HEIGHT :: "tty_ctx_t \<Rightarrow> int" where
  "MAX_ENTITY_HEIGHT tty = c_div (DISPLAY_HEIGHT tty) 2"

definition MIN_ENTITY_WIDTH :: int where
  "MIN_ENTITY_WIDTH = 1"

definition MIN_ENTITY_HEIGHT :: int where
  "MIN_ENTITY_HEIGHT = 1"

definition MAX_ENTITY_DELTA_X :: "tty_ctx_t \<Rightarrow> int" where
  "MAX_ENTITY_DELTA_X tty = DISPLAY_WIDTH tty"

definition MAX_ENTITY_DELTA_Y :: "tty_ctx_t \<Rightarrow> int" where
  "MAX_ENTITY_DELTA_Y tty = DISPLAY_HEIGHT tty"

definition MIN_ENTITY_DELTA_X :: int where
  "MIN_ENTITY_DELTA_X = 0"

definition MIN_ENTITY_DELTA_Y :: int where
  "MIN_ENTITY_DELTA_Y = 0"

definition DEFAULT_ENTITY_PROPERTIES :: entity_t where
  "DEFAULT_ENTITY_PROPERTIES =
     \<lparr> pos = \<lparr> x = 1, y = 60 \<rparr>,
       delta = \<lparr> x = 0.005, y = 0.005 \<rparr>,
       size = \<lparr> x = 2, y = 1 \<rparr> \<rparr>"

section \<open>Boundary predicates and clamping\<close>

definition out_of_bounds_x :: "tty_ctx_t \<Rightarrow> real \<Rightarrow> bool" where
  "out_of_bounds_x tty v \<longleftrightarrow> 1 > v \<or> v \<ge> real_of_int (DISPLAY_WIDTH tty)"

definition out_of_bounds_y :: "tty_ctx_t \<Rightarrow> real \<Rightarrow> bool" where
  "out_of_bounds_y tty v \<longleftrightarrow> 1 > v \<or> v \<ge> real_of_int (DISPLAY_HEIGHT tty)"


definition constrain_x :: "tty_ctx_t \<Rightarrow> real \<Rightarrow> real" where
  "constrain_x tty v =
     (if v < 1 then 1
      else if v \<ge> real_of_int (DISPLAY_WIDTH tty) then real_of_int (DISPLAY_WIDTH tty - 1)
      else v)"

definition constrain_y :: "tty_ctx_t \<Rightarrow> real \<Rightarrow> real" where
  "constrain_y tty v =
     (if v < 1 then 1
      else if v \<ge> real_of_int (DISPLAY_HEIGHT tty) then real_of_int (DISPLAY_HEIGHT tty - 1)
      else v)"

definition constrain :: "tty_ctx_t \<Rightarrow> vec2 \<Rightarrow> vec2" where
  "constrain tty v = \<lparr> x = constrain_x tty (x v), y = constrain_y tty (y v) \<rparr>"

definition collision_x :: "tty_ctx_t \<Rightarrow> real \<Rightarrow> bool" where
  "collision_x tty v \<longleftrightarrow> 1 \<ge> v \<or> v \<ge> real_of_int (DISPLAY_WIDTH tty)"

definition collision_y :: "tty_ctx_t \<Rightarrow> real \<Rightarrow> bool" where
  "collision_y tty v \<longleftrightarrow> 1 \<ge> v \<or> v \<ge> real_of_int (DISPLAY_HEIGHT tty)"

definition collision :: "tty_ctx_t \<Rightarrow> vec2 \<Rightarrow> bool" where
  "collision tty p \<longleftrightarrow> collision_x tty (x p) \<or> collision_y tty (y p)"

section \<open>The physics step\<close>

text \<open>
  \<open>entity_move\<close> updates the entity in place; the model returns the updated entity.
  The reflection is applied to \<open>delta\<close> first and the new position is stored
  afterwards, as in the source.
\<close>

definition entity_move :: "tty_ctx_t \<Rightarrow> entity_t \<Rightarrow> entity_t" where
  "entity_move tty e =
     (let end = vec2_add (pos e) (size e);
          new_pos = vec2_add (pos e) (delta e);
          new_end = vec2_add end (delta e)
      in if collision tty new_pos then
           (let e1 = (if collision_x tty (x new_pos)
                      then e\<lparr> delta := (delta e)\<lparr> x := - x (delta e) \<rparr> \<rparr>
                      else e\<lparr> delta := (delta e)\<lparr> y := - y (delta e) \<rparr> \<rparr>)
            in e1\<lparr> pos := constrain tty new_pos \<rparr>)
         else if collision tty new_end then
           (let e1 = (if collision_x tty (x new_end)
                      then e\<lparr> delta := (delta e)\<lparr> x := - x (delta e) \<rparr> \<rparr>
                      else e\<lparr> delta := (delta e)\<lparr> y := - y (delta e) \<rparr> \<rparr>)
            in e1\<lparr> pos := vec2_sub (constrain tty new_end) (size e1) \<rparr>)
         else e\<lparr> pos := new_pos \<rparr>)"

section \<open>The command interpreter\<close>

datatype command_state_t = NORMAL | RESIZE | SPEED | QUIT

text \<open>
  The value of \<open>getchar()\<close> is the first argument: the code of the byte read, or
  \<open>EOF\<close> when the non-blocking read finds no key. The function returns the next mode
  together with the entity as it leaves it. The \<open>default\<close> branch of the source, which
  aborts, is taken only by a value outside the enumeration; the datatype has none.
\<close>

definition EOF :: int where
  "EOF = - 1"

definition handle_command :: "int \<Rightarrow> tty_ctx_t \<Rightarrow> command_state_t \<Rightarrow> entity_t \<Rightarrow> command_state_t \<times> entity_t" where
  "handle_command c tty command e =
     (if c = of_char (CHR ''q'') then (QUIT, e)
      else if c = of_char (CHR ''n'') then (NORMAL, e)
      else case command of
        QUIT \<Rightarrow> (QUIT, e)
      | NORMAL \<Rightarrow>
          (if c = of_char (CHR ''r'') then (RESIZE, e)
           else if c = of_char (CHR ''s'') then (SPEED, e)
           else (command, e))
      | RESIZE \<Rightarrow>
          (if c = of_char (CHR ''w'') then
             (if x (size e) < real_of_int (MAX_ENTITY_WIDTH tty) \<and>
                 y (size e) < real_of_int (MAX_ENTITY_HEIGHT tty)
              then (command, e\<lparr> size := \<lparr> x = x (size e) + 1, y = y (size e) + 1 \<rparr> \<rparr>)
              else (command, e))
           else if c = of_char (CHR ''s'') then
             (if x (size e) > real_of_int MIN_ENTITY_WIDTH \<and>
                 y (size e) > real_of_int MIN_ENTITY_HEIGHT
              then (command, e\<lparr> size := \<lparr> x = x (size e) - 1, y = y (size e) - 1 \<rparr> \<rparr>)
              else (command, e))
           else (command, e))
      | SPEED \<Rightarrow>
          (if c = of_char (CHR ''w'') then
             (if x (delta e) < real_of_int (MAX_ENTITY_DELTA_X tty) \<and>
                 y (delta e) < real_of_int (MAX_ENTITY_DELTA_Y tty)
              then (command, e\<lparr> delta :=
                      \<lparr> x = ((if x (delta e) = 0 then 1 else 0) + x (delta e)) * 2,
                        y = ((if y (delta e) = 0 then 1 else 0) + y (delta e)) * 2 \<rparr> \<rparr>)
              else (command, e))
           else if c = of_char (CHR ''s'') then
             (if x (delta e) > real_of_int MIN_ENTITY_DELTA_X \<and>
                 y (delta e) > real_of_int MIN_ENTITY_DELTA_Y
              then (command, e\<lparr> delta := \<lparr> x = x (delta e) / 2, y = y (delta e) / 2 \<rparr> \<rparr>)
              else (command, e))
           else (command, e)))"

section \<open>Properties of the command interpreter\<close>

text \<open>
  Claim C3. On input \<open>n\<close> the interpreter returns Normal from every mode (Normal,
  Resize, Speed and Quit alike): the override is tested before the mode is looked at.
  The entity is not touched.
\<close>

theorem handle_command_n_forces_normal:
  "handle_command (of_char (CHR ''n'')) tty command e = (NORMAL, e)"
  by (simp add: handle_command_def)

text \<open>
  Claim C8. When the read yields the no-input sentinel \<open>EOF\<close>, the interpreter returns
  the current mode, whatever it is, and the entity with position, size and velocity
  unchanged.
\<close>

theorem handle_command_no_input:
  "handle_command EOF tty command e = (command, e)"
  by (cases command) (simp_all add: handle_command_def EOF_def)

text \<open>
  Claim C2, as stated, fails: with the current mode Quit and input \<open>n\<close> the
  interpreter returns Normal, because the test for \<open>n\<close> comes before the switch on
  the mode.
\<close>

theorem handle_command_quit_n_counterexample:
  "handle_command (of_char (CHR ''n'')) \<lparr> rows = 24, cols = 80 \<rparr> QUIT DEFAULT_ENTITY_PROPERTIES
     = (NORMAL, DEFAULT_ENTITY_PROPERTIES) \<and>
   fst (handle_command (of_char (CHR ''n'')) \<lparr> rows = 24, cols = 80 \<rparr> QUIT
          DEFAULT_ENTITY_PROPERTIES) \<noteq> QUIT"
  by (simp add: handle_command_def)

text \<open>
  Claim C2, amended. Called with the current mode Quit, the interpreter returns Quit
  for every input, the no-input sentinel included, except \<open>n\<close>, on which it returns
  Normal; the entity is unchanged in either case.
\<close>

theorem handle_command_quit:
  "handle_command c tty QUIT e = (if c = of_char (CHR ''n'') then NORMAL else QUIT, e)"
  by (simp add: handle_command_def)

text \<open>
  Claim C5, as stated, fails: the guard compares the current size with the limit, not
  the size that results. On an 81 by 25 terminal the viewport is 80 by 24 and the
  limits are 40 and 12; a size of (12, 11) passes the guard and grows to (13, 12),
  whose height is not strictly below half the viewport height.
\<close>

theorem handle_command_resize_grow_counterexample:
  "snd (handle_command (of_char (CHR ''w'')) \<lparr> rows = 25, cols = 81 \<rparr> RESIZE
          \<lparr> pos = \<lparr> x = 1, y = 1 \<rparr>, delta = \<lparr> x = 0.005, y = 0.005 \<rparr>,
            size = \<lparr> x = 12, y = 11 \<rparr> \<rparr>)
     = \<lparr> pos = \<lparr> x = 1, y = 1 \<rparr>, delta = \<lparr> x = 0.005, y = 0.005 \<rparr>,
         size = \<lparr> x = 13, y = 12 \<rparr> \<rparr> \<and>
   \<not> (12 < real_of_int (MAX_ENTITY_HEIGHT \<lparr> rows = 25, cols = 81 \<rparr>)) \<and>
   \<not> (12 < real_of_int (DISPLAY_HEIGHT \<lparr> rows = 25, cols = 81 \<rparr>) / 2)"
  by (simp add: handle_command_def MAX_ENTITY_WIDTH_def MAX_ENTITY_HEIGHT_def c_div_def
      DISPLAY_WIDTH_def DISPLAY_HEIGHT_def)

text \<open>
  Claim C5, amended. In Resize mode, input \<open>w\<close> increases the size by one cell in both
  dimensions exactly when the current size is strictly below \<open>MAX_ENTITY_WIDTH\<close> in x
  and strictly below \<open>MAX_ENTITY_HEIGHT\<close> in y (the viewport extents halved by integer
  division); otherwise the size is unchanged. The mode stays Resize, and position and
  velocity are not touched.
\<close>

theorem handle_command_resize_grow:
  "handle_command (of_char (CHR ''w'')) tty RESIZE e =
     (RESIZE,
      if x (size e) < real_of_int (MAX_ENTITY_WIDTH tty) \<and>
         y (size e) < real_of_int (MAX_ENTITY_HEIGHT tty)
      then e\<lparr> size := \<lparr> x = x (size e) + 1, y = y (size e) + 1 \<rparr> \<rparr>
      else e)"
  by (simp add: handle_command_def)

text \<open>
  Claim C6, as stated, fails: the guard compares the current velocity with the viewport
  extent, not the doubled one. On an 80 by 24 terminal the viewport is 79 by 23; the
  velocity (20.48, 20.48) passes the guard and doubles to (40.96, 40.96), whose y
  component is not below the viewport height.
\<close>

theorem handle_command_speed_double_counterexample:
  "snd (handle_command (of_char (CHR ''w'')) \<lparr> rows = 24, cols = 80 \<rparr> SPEED
          \<lparr> pos = \<lparr> x = 1, y = 1 \<rparr>, delta = \<lparr> x = 20.48, y = 20.48 \<rparr>,
            size = \<lparr> x = 2, y = 1 \<rparr> \<rparr>)
     = \<lparr> pos = \<lparr> x = 1, y = 1 \<rparr>, delta = \<lparr> x = 40.96, y = 40.96 \<rparr>,
         size = \<lparr> x = 2, y = 1 \<rparr> \<rparr> \<and>
   \<not> (40.96 < real_of_int (MAX_ENTITY_DELTA_Y \<lparr> rows = 24, cols = 80 \<rparr>))"
  by (simp add: handle_command_def MAX_ENTITY_DELTA_X_def MAX_ENTITY_DELTA_Y_def
      DISPLAY_WIDTH_def DISPLAY_HEIGHT_def)

text \<open>
  Claim C6, amended. In Speed mode, input \<open>w\<close> doubles both velocity components, a
  component equal to zero becoming 2, exactly when the current components are below the
  viewport extent (x below \<open>DISPLAY_WIDTH\<close> and y below \<open>DISPLAY_HEIGHT\<close>); otherwise
  the velocity is unchanged. The mode stays Speed, and position and size are not touched.
\<close>

theorem handle_command_speed_double:
  "handle_command (of_char (CHR ''w'')) tty SPEED e =
     (SPEED,
      if x (delta e) < real_of_int (DISPLAY_WIDTH tty) \<and>
         y (delta e) < real_of_int (DISPLAY_HEIGHT tty)
      then e\<lparr> delta := \<lparr> x = (if x (delta e) = 0 then 2 else 2 * x (delta e)),
                          y = (if y (delta e) = 0 then 2 else 2 * y (delta e)) \<rparr> \<rparr>
      else e)"
  by (simp add: handle_command_def MAX_ENTITY_DELTA_X_def MAX_ENTITY_DELTA_Y_def)




section \<open>Properties of the physics step\<close>

lemma entity_move_size: "size (entity_move tty e) = size e"
  by (simp add: entity_move_def Let_def)

text \<open>
  Claim C4, as stated, fails: on an 80 by 24 terminal the viewport height is 23, so the
  tentative position (1.005, 60.005) of the default entity satisfies the collision
  predicate in y. The y velocity is reflected and the position is not the old one plus
  (0.005, 0.005).
\<close>

theorem entity_move_default_counterexample:
  "collision \<lparr> rows = 24, cols = 80 \<rparr>
     (vec2_add (pos DEFAULT_ENTITY_PROPERTIES) (delta DEFAULT_ENTITY_PROPERTIES)) \<and>
   delta (entity_move \<lparr> rows = 24, cols = 80 \<rparr> DEFAULT_ENTITY_PROPERTIES)
     \<noteq> delta DEFAULT_ENTITY_PROPERTIES \<and>
   pos (entity_move \<lparr> rows = 24, cols = 80 \<rparr> DEFAULT_ENTITY_PROPERTIES)
     \<noteq> vec2_add (pos DEFAULT_ENTITY_PROPERTIES) \<lparr> x = 0.005, y = 0.005 \<rparr>"
  by (simp add: entity_move_def collision_def collision_x_def collision_y_def
      DISPLAY_WIDTH_def DISPLAY_HEIGHT_def vec2_add_def DEFAULT_ENTITY_PROPERTIES_def
      constrain_def constrain_x_def constrain_y_def Let_def)

text \<open>
  Claim C4, amended. With the entity at its creation defaults and a terminal of 80
  columns by 24 rows, one call to \<open>entity_move\<close> finds a collision of the tentative
  position on the y axis: the y velocity becomes -0.005, the x velocity stays 0.005, x
  advances by exactly 0.005 to 1.005, and y is clamped to 22, the viewport height
  minus one. With no key pressed the mode stays Normal and the entity is left as the
  move produced it.
\<close>

theorem entity_move_default:
  "entity_move \<lparr> rows = 24, cols = 80 \<rparr> DEFAULT_ENTITY_PROPERTIES
     = \<lparr> pos = \<lparr> x = 1.005, y = 22 \<rparr>, delta = \<lparr> x = 0.005, y = - 0.005 \<rparr>,
         size = \<lparr> x = 2, y = 1 \<rparr> \<rparr> \<and>
   handle_command EOF \<lparr> rows = 24, cols = 80 \<rparr> NORMAL
       (entity_move \<lparr> rows = 24, cols = 80 \<rparr> DEFAULT_ENTITY_PROPERTIES)
     = (NORMAL, entity_move \<lparr> rows = 24, cols = 80 \<rparr> DEFAULT_ENTITY_PROPERTIES)"
  by (simp add: entity_move_def collision_def collision_x_def collision_y_def
      DISPLAY_WIDTH_def DISPLAY_HEIGHT_def vec2_add_def DEFAULT_ENTITY_PROPERTIES_def
      constrain_def constrain_x_def constrain_y_def Let_def handle_command_def EOF_def)

text \<open>
  The outcome the scenario describes needs a larger viewport: wider than 3.005 and
  taller than 61.005, so that neither the tentative position nor the tentative far
  corner collides.
\<close>

lemma entity_move_default_no_collision:
  assumes "3.005 < real_of_int (DISPLAY_WIDTH tty)"
    and "61.005 < real_of_int (DISPLAY_HEIGHT tty)"
  shows "entity_move tty DEFAULT_ENTITY_PROPERTIES
           = DEFAULT_ENTITY_PROPERTIES\<lparr> pos := \<lparr> x = 1.005, y = 60.005 \<rparr> \<rparr>"
  using assms
  by (simp add: entity_move_def collision_def collision_x_def collision_y_def
      vec2_add_def DEFAULT_ENTITY_PROPERTIES_def Let_def)

text \<open>
  Claim C9. If the tentative new position collides in x and in y, only the x velocity
  is reflected; if the tentative new position does not collide and the tentative new
  far corner collides in x and in y, again only the x velocity is reflected. In every
  call at least one of the two velocity components is left as it was.
\<close>

theorem entity_move_x_before_y:
  "(collision_x tty (x (vec2_add (pos e) (delta e))) \<and>
    collision_y tty (y (vec2_add (pos e) (delta e)))
      \<longrightarrow> delta (entity_move tty e) = (delta e)\<lparr> x := - x (delta e) \<rparr>) \<and>
   (\<not> collision tty (vec2_add (pos e) (delta e)) \<and>
    collision_x tty (x (vec2_add (vec2_add (pos e) (size e)) (delta e))) \<and>
    collision_y tty (y (vec2_add (vec2_add (pos e) (size e)) (delta e)))
      \<longrightarrow> delta (entity_move tty e) = (delta e)\<lparr> x := - x (delta e) \<rparr>) \<and>
   (x (delta (entity_move tty e)) = x (delta e) \<or>
    y (delta (entity_move tty e)) = y (delta e))"
  by (simp add: entity_move_def Let_def collision_def)

text \<open>
  The witness takes one entity in the corner (1, 1) moving up and left, whose tentative
  position collides on both axes, and one entity near the opposite corner whose
  tentative far corner collides on both axes while its tentative position is free.
\<close>

theorem entity_move_x_before_y_witness:
  "(collision_x \<lparr> rows = 24, cols = 80 \<rparr>
      (x (vec2_add \<lparr> x = 1, y = 1 \<rparr> \<lparr> x = - 0.005, y = - 0.005 \<rparr>)) \<and>
    collision_y \<lparr> rows = 24, cols = 80 \<rparr>
      (y (vec2_add \<lparr> x = 1, y = 1 \<rparr> \<lparr> x = - 0.005, y = - 0.005 \<rparr>)) \<and>
    delta (entity_move \<lparr> rows = 24, cols = 80 \<rparr>
      \<lparr> pos = \<lparr> x = 1, y = 1 \<rparr>, delta = \<lparr> x = - 0.005, y = - 0.005 \<rparr>,
        size = \<lparr> x = 2, y = 1 \<rparr> \<rparr>)
      = \<lparr> x = 0.005, y = - 0.005 \<rparr>) \<and>
   (\<not> collision \<lparr> rows = 24, cols = 80 \<rparr> (vec2_add \<lparr> x = 76, y = 21 \<rparr> \<lparr> x = 1.5, y = 1.5 \<rparr>) \<and>
    collision_x \<lparr> rows = 24, cols = 80 \<rparr>
      (x (vec2_add (vec2_add \<lparr> x = 76, y = 21 \<rparr> \<lparr> x = 2, y = 1 \<rparr>) \<lparr> x = 1.5, y = 1.5 \<rparr>)) \<and>
    collision_y \<lparr> rows = 24, cols = 80 \<rparr>
      (y (vec2_add (vec2_add \<lparr> x = 76, y = 21 \<rparr> \<lparr> x = 2, y = 1 \<rparr>) \<lparr> x = 1.5, y = 1.5 \<rparr>)) \<and>
    delta (entity_move \<lparr> rows = 24, cols = 80 \<rparr>
      \<lparr> pos = \<lparr> x = 76, y = 21 \<rparr>, delta = \<lparr> x = 1.5, y = 1.5 \<rparr>,
        size = \<lparr> x = 2, y = 1 \<rparr> \<rparr>)
      = \<lparr> x = - 1.5, y = 1.5 \<rparr>)"
proof -
  let ?tty = "\<lparr> rows = 24, cols = 80 \<rparr>"
  let ?e1 = "\<lparr> pos = \<lparr> x = 1, y = 1 \<rparr>, delta = \<lparr> x = - 0.005, y = - 0.005 \<rparr>,
               size = \<lparr> x = 2, y = 1 \<rparr> \<rparr>"
  let ?e2 = "\<lparr> pos = \<lparr> x = 76, y = 21 \<rparr>, delta = \<lparr> x = 1.5, y = 1.5 \<rparr>,
               size = \<lparr> x = 2, y = 1 \<rparr> \<rparr>"
  have lead: "collision_x ?tty (x (vec2_add (pos ?e1) (delta ?e1))) \<and>
              collision_y ?tty (y (vec2_add (pos ?e1) (delta ?e1)))"
    by (simp add: collision_x_def collision_y_def vec2_add_def DISPLAY_WIDTH_def
        DISPLAY_HEIGHT_def)
  have trail: "\<not> collision ?tty (vec2_add (pos ?e2) (delta ?e2)) \<and>
               collision_x ?tty (x (vec2_add (vec2_add (pos ?e2) (size ?e2)) (delta ?e2))) \<and>
               collision_y ?tty (y (vec2_add (vec2_add (pos ?e2) (size ?e2)) (delta ?e2)))"
    by (simp add: collision_def collision_x_def collision_y_def vec2_add_def
        DISPLAY_WIDTH_def DISPLAY_HEIGHT_def)
  from lead entity_move_x_before_y [of ?tty ?e1]
  have r1: "delta (entity_move ?tty ?e1) = (delta ?e1)\<lparr> x := - x (delta ?e1) \<rparr>"
    by blast
  from trail entity_move_x_before_y [of ?tty ?e2]
  have r2: "delta (entity_move ?tty ?e2) = (delta ?e2)\<lparr> x := - x (delta ?e2) \<rparr>"
    by blast
  from lead trail r1 r2 show ?thesis by simp
qed

text \<open>
  Claim C10. One call to \<open>entity_move\<close> leaves the absolute value of each velocity
  component as it was, and at most one of the two components changes at all.
\<close>

theorem entity_move_delta_magnitude:
  "\<bar>x (delta (entity_move tty e))\<bar> = \<bar>x (delta e)\<bar> \<and>
   \<bar>y (delta (entity_move tty e))\<bar> = \<bar>y (delta e)\<bar> \<and>
   (x (delta (entity_move tty e)) = x (delta e) \<or>
    y (delta (entity_move tty e)) = y (delta e))"
  by (simp add: entity_move_def Let_def)


text \<open>
  A size that is a whole number of cells, as every size the program produces is, is at
  most the bound minus two as soon as the position and the far corner are in the
  viewport.
\<close>

lemma whole_size_le_x:
  assumes "x (size e) \<in> \<int>"
    and "\<not> out_of_bounds_x tty (x (pos e))"
    and "\<not> out_of_bounds_x tty (x (vec2_add (pos e) (size e)))"
  shows "x (size e) \<le> real_of_int (DISPLAY_WIDTH tty - 2)"
proof -
  from assms(1) obtain n :: int where n: "x (size e) = real_of_int n"
    by (auto elim: Ints_cases)
  from assms(2,3) have "1 + real_of_int n < real_of_int (DISPLAY_WIDTH tty)"
    by (simp add: out_of_bounds_x_def vec2_add_def n)
  then have "1 + n < DISPLAY_WIDTH tty"
    by linarith
  then have "n \<le> DISPLAY_WIDTH tty - 2"
    by simp
  then show ?thesis
    unfolding n by (simp only: of_int_le_iff)
qed

lemma whole_size_le_y:
  assumes "y (size e) \<in> \<int>"
    and "\<not> out_of_bounds_y tty (y (pos e))"
    and "\<not> out_of_bounds_y tty (y (vec2_add (pos e) (size e)))"
  shows "y (size e) \<le> real_of_int (DISPLAY_HEIGHT tty - 2)"
proof -
  from assms(1) obtain n :: int where n: "y (size e) = real_of_int n"
    by (auto elim: Ints_cases)
  from assms(2,3) have "1 + real_of_int n < real_of_int (DISPLAY_HEIGHT tty)"
    by (simp add: out_of_bounds_y_def vec2_add_def n)
  then have "1 + n < DISPLAY_HEIGHT tty"
    by linarith
  then have "n \<le> DISPLAY_HEIGHT tty - 2"
    by simp
  then show ?thesis
    unfolding n by (simp only: of_int_le_iff)
qed



end
